theory Spec2Isabelle
  imports Complex_Main "HOL-Library.AList"
begin

section \<open>JavaScript values shared by the embedded functions\<close>

text \<open>
  A JavaScript number is a finite value, one of the two infinities, or NaN. The finite
  values are kept as rationals: none of the functions below does arithmetic on them
  other than the subtraction of a whole number of milliseconds.
\<close>

datatype jsnum = Finite rat | PosInfinity | NegInfinity | NaN

text \<open>
  Values that can be thrown (or reject a promise): an error that carries an
  \<^verbatim>\<open>output.statusCode\<close> (the Boom errors of the HTTP layer, with their status and
  message), an \<^verbatim>\<open>Error\<close> object with a message and no \<^verbatim>\<open>output\<close> property, and the
  \<^verbatim>\<open>TypeError\<close> that the runtime raises when a property of \<^verbatim>\<open>undefined\<close> is read.
\<close>

datatype js_error = Boom nat string | Error string | TypeError string

section \<open>Uptime: the timestamp range of the status check\<close>

text \<open>
  \<^verbatim>\<open>x-pack/plugins/uptime/server/lib/alerts/status_check.ts\<close>, \<^verbatim>\<open>getTimestampRange\<close>.

  \<^verbatim>\<open>datemath.parse\<close> belongs to a package that is not among the sources, so it is a
  parameter of the model. It returns \<^verbatim>\<open>undefined\<close> (here \<open>None\<close>) or a moment. A moment
  is valid and holds its time in epoch milliseconds, or it is invalid; \<^verbatim>\<open>valueOf()\<close>
  returns the milliseconds of a valid moment and NaN for an invalid one.
\<close>

datatype moment = Moment int | InvalidMoment

fun valueOf :: "moment \<Rightarrow> jsnum" where
  "valueOf (Moment t) = Finite (of_int t)"
| "valueOf InvalidMoment = NaN"

text \<open>
  The time value of a JavaScript date lies within 8.64e15 milliseconds either side of
  the epoch. \<^verbatim>\<open>Date.prototype.setTime\<close> clips its argument: a time outside that range
  leaves the date, and the moment that holds it, without a time value.
\<close>

definition in_date_range :: "int \<Rightarrow> bool" where
  "in_date_range t = (\<bar>t\<bar> \<le> 8640000000000000)"

definition setTime :: "int \<Rightarrow> moment" where
  "setTime t = (if in_date_range t then Moment t else InvalidMoment)"

text \<open>
  \<^verbatim>\<open>moment.subtract(n, 'hours')\<close> sets the time of a valid moment to its time value less
  \<open>n\<close> hours of 3600000 milliseconds each (hours are a fixed duration for moment, and
  the new time goes through \<^verbatim>\<open>setTime\<close>); it does nothing to an invalid moment. The
  moment is in local mode, where \<^verbatim>\<open>valueOf()\<close> is the time value of its date.
\<close>

fun subtract_hours :: "moment \<Rightarrow> int \<Rightarrow> moment" where
  "subtract_hours (Moment t) n = setTime (t - n * 3600000)"
| "subtract_hours InvalidMoment n = InvalidMoment"

text \<open>The comparison \<^verbatim>\<open>value < other\<close> of lodash's \<^verbatim>\<open>baseLt\<close> on numbers.\<close>

fun baseLt :: "jsnum \<Rightarrow> jsnum \<Rightarrow> bool" where
  "baseLt NaN y = False"
| "baseLt x NaN = False"
| "baseLt (Finite a) (Finite b) = (a < b)"
| "baseLt NegInfinity y = (y \<noteq> NegInfinity)"
| "baseLt x PosInfinity = (x \<noteq> PosInfinity)"
| "baseLt x y = False"

text \<open>
  lodash's \<^verbatim>\<open>baseExtremum(array, identity, baseLt)\<close>: the loop over the array with its
  variable \<^verbatim>\<open>computed\<close> (with the identity iteratee, \<^verbatim>\<open>result\<close> is the same value). An
  element is taken when it is neither \<^verbatim>\<open>undefined\<close> nor \<^verbatim>\<open>null\<close> and either nothing
  has been taken yet and the element is not NaN, or it is less than \<^verbatim>\<open>computed\<close>.
\<close>

fun baseExtremum :: "jsnum option list \<Rightarrow> jsnum option \<Rightarrow> jsnum option" where
  "baseExtremum [] computed = computed"
| "baseExtremum (None # rest) computed = baseExtremum rest computed"
| "baseExtremum (Some current # rest) None =
     (if current \<noteq> NaN then baseExtremum rest (Some current) else baseExtremum rest None)"
| "baseExtremum (Some current # rest) (Some c) =
     (if baseLt current c then baseExtremum rest (Some current)
      else baseExtremum rest (Some c))"

text \<open>lodash's \<^verbatim>\<open>min\<close>: \<^verbatim>\<open>undefined\<close> for an empty array.\<close>

definition lodash_min :: "jsnum option list \<Rightarrow> jsnum option" where
  "lodash_min array = (if array \<noteq> [] then baseExtremum array None else None)"

record lookbacks =
  ruleScheduleLookback :: string
  timerangeLookback :: string

datatype range_from = FromNumber jsnum | FromString string

record timestamp_range =
  range_to :: string
  range_from :: range_from

definition getTimestampRange :: "(string \<Rightarrow> moment option) \<Rightarrow> lookbacks \<Rightarrow> timestamp_range" where
  "getTimestampRange parse args =
     (let scheduleIntervalAbsoluteTime =
            map_option valueOf (parse (ruleScheduleLookback args));
          defaultIntervalAbsoluteTime =
            map_option (\<lambda>m. valueOf (subtract_hours m 24)) (parse (timerangeLookback args))
      in \<lparr> range_to = ''now'',
           range_from =
             (case lodash_min [scheduleIntervalAbsoluteTime, defaultIntervalAbsoluteTime] of
                None \<Rightarrow> FromString ''now-24h''
              | Some n \<Rightarrow> FromNumber n) \<rparr>)"

text \<open>
  A lookback parses when \<^verbatim>\<open>datemath.parse\<close> returns a valid moment; \<open>parsed_time\<close> is
  its timestamp in epoch milliseconds.
\<close>

fun parsed_time :: "moment option \<Rightarrow> int option" where
  "parsed_time (Some (Moment t)) = Some t"
| "parsed_time (Some InvalidMoment) = None"
| "parsed_time None = None"

text \<open>
  The timestamp of a parsed lookback less 24 hours, when that time is still within the
  date range.
\<close>

fun less_24_hours :: "int option \<Rightarrow> int option" where
  "less_24_hours (Some t) =
     (if in_date_range (t - 86400000) then Some (t - 86400000) else None)"
| "less_24_hours None = None"

section \<open>Detection engine: deleting the notification of a rule\<close>

text \<open>
  \<^verbatim>\<open>deleteNotifications\<close> (the source file \<^verbatim>\<open>unnamed/part_005\<close>). A notification is kept
  as the record of its optional \<^verbatim>\<open>id\<close>; its other attributes are the extension of the
  record.
\<close>

record notification =
  notification_id :: "string option"

text \<open>
  The expression \<^verbatim>\<open>err.output.statusCode\<close> of the catch block: the status code of an
  error that has an \<^verbatim>\<open>output\<close>, and a \<^verbatim>\<open>TypeError\<close> for an error whose \<^verbatim>\<open>output\<close> is
  \<^verbatim>\<open>undefined\<close>.
\<close>

fun output_statusCode :: "js_error \<Rightarrow> js_error + nat" where
  "output_statusCode (Boom code msg) = Inr code"
| "output_statusCode (Error msg) =
     Inl (TypeError ''Cannot read property 'statusCode' of undefined'')"
| "output_statusCode (TypeError msg) =
     Inl (TypeError ''Cannot read property 'statusCode' of undefined'')"

text \<open>
  \<^verbatim>\<open>readNotifications\<close> and the rules client are not among the sources and are
  parameters: \<open>readNotifications rulesClient id ruleAlertId\<close> resolves to a notification
  or \<^verbatim>\<open>null\<close>, or rejects; \<open>rulesClient_delete rulesClient id\<close> returns the client after
  the call and the error of a rejected call. The result is the client after the call
  and what the promise settles to.
\<close>

definition deleteNotifications ::
  "('rc \<Rightarrow> string option \<Rightarrow> string option \<Rightarrow> js_error + 'a notification_scheme option) \<Rightarrow>
   ('rc \<Rightarrow> string \<Rightarrow> 'rc \<times> js_error option) \<Rightarrow>
   'rc \<Rightarrow> string option \<Rightarrow> string option \<Rightarrow>
   'rc \<times> (js_error + 'a notification_scheme option)" where
  "deleteNotifications readNotifications rulesClient_delete rulesClient id' ruleAlertId =
     (case readNotifications rulesClient id' ruleAlertId of
        Inl err \<Rightarrow> (rulesClient, Inl err)
      | Inr None \<Rightarrow> (rulesClient, Inr None)
      | Inr (Some notification) \<Rightarrow>
          (case notification_id notification of
             Some nid \<Rightarrow>
               (case rulesClient_delete rulesClient nid of
                  (rc, None) \<Rightarrow> (rc, Inr (Some notification))
                | (rc, Some err) \<Rightarrow> (rc, Inl err))
           | None \<Rightarrow>
               (case id' of
                  Some i \<Rightarrow>
                    (case rulesClient_delete rulesClient i of
                       (rc, None) \<Rightarrow> (rc, Inr (Some notification))
                     | (rc, Some err) \<Rightarrow>
                         (case output_statusCode err of
                            Inl type_error \<Rightarrow> (rc, Inl type_error)
                          | Inr code \<Rightarrow>
                              if code = 404 then (rc, Inr None) else (rc, Inl err)))
                | None \<Rightarrow> (rulesClient, Inr None))))"

section \<open>Query filters: the range filter\<close>

text \<open>
  \<^verbatim>\<open>packages/kbn-es-query/src/filters/build_filters/range_filter.ts\<close>.

  The keys of \<^verbatim>\<open>RangeFilterParams\<close> are those of the interface; an object of that type
  is the list of its own properties in insertion order, which is the order in which
  lodash's \<^verbatim>\<open>map\<close>, \<^verbatim>\<open>mapValues\<close> and \<^verbatim>\<open>pickBy\<close> visit them. A property holds a number
  or a string, or \<^verbatim>\<open>undefined\<close> (every property of the interface is optional).
\<close>

datatype range_key = From | To | Gt | Lt | Gte | Lte | Format

datatype jsval = JNum jsnum | JStr string | JUndefined

type_synonym RangeFilterParams = "(range_key \<times> jsval) list"

fun key_name :: "range_key \<Rightarrow> string" where
  "key_name From = ''from''"
| "key_name To = ''to''"
| "key_name Gt = ''gt''"
| "key_name Lt = ''lt''"
| "key_name Gte = ''gte''"
| "key_name Lte = ''lte''"
| "key_name Format = ''format''"

text \<open>
  The conversions of the language that depend on the text of a number are parameters:
  \<^verbatim>\<open>parseFloat\<close> on a string, the conversion of a string to a number that \<^verbatim>\<open>Math.abs\<close>
  applies to its argument, and the conversion of a number to a string that \<^verbatim>\<open>+\<close>
  applies next to a string.
\<close>

record js_builtins =
  parseFloat :: "string \<Rightarrow> jsnum"
  stringToNumber :: "string \<Rightarrow> jsnum"
  numberToString :: "jsnum \<Rightarrow> string"

text \<open>
  \<^verbatim>\<open>parseFloat(value)\<close> converts its argument to a string first; the text of a number
  parses back to that number and the text \<^verbatim>\<open>undefined\<close> parses to NaN.
\<close>

fun parseFloat_value :: "js_builtins \<Rightarrow> jsval \<Rightarrow> jsnum" where
  "parseFloat_value rt (JNum n) = n"
| "parseFloat_value rt (JStr s) = parseFloat rt s"
| "parseFloat_value rt JUndefined = NaN"

fun ToNumber :: "js_builtins \<Rightarrow> jsval \<Rightarrow> jsnum" where
  "ToNumber rt (JNum n) = n"
| "ToNumber rt (JStr s) = stringToNumber rt s"
| "ToNumber rt JUndefined = NaN"

fun ToString :: "js_builtins \<Rightarrow> jsval \<Rightarrow> string" where
  "ToString rt (JNum n) = numberToString rt n"
| "ToString rt (JStr s) = s"
| "ToString rt JUndefined = ''undefined''"

fun Math_abs :: "jsnum \<Rightarrow> jsnum" where
  "Math_abs (Finite r) = Finite \<bar>r\<bar>"
| "Math_abs PosInfinity = PosInfinity"
| "Math_abs NegInfinity = PosInfinity"
| "Math_abs NaN = NaN"

text \<open>
  The operations on objects: \<^verbatim>\<open>key in params\<close>, lodash's \<^verbatim>\<open>get\<close>, \<^verbatim>\<open>delete\<close>,
  \<^verbatim>\<open>mapValues\<close> and \<^verbatim>\<open>pickBy\<close>, and \<^verbatim>\<open>Array.prototype.join\<close>.
\<close>

definition has_key :: "range_key \<Rightarrow> RangeFilterParams \<Rightarrow> bool" where
  "has_key k params = (k \<in> set (map fst params))"

definition get_value :: "RangeFilterParams \<Rightarrow> range_key \<Rightarrow> jsval" where
  "get_value params k = (case map_of params k of Some v \<Rightarrow> v | None \<Rightarrow> JUndefined)"

definition delete_key :: "range_key \<Rightarrow> RangeFilterParams \<Rightarrow> RangeFilterParams" where
  "delete_key k params = filter (\<lambda>kv. fst kv \<noteq> k) params"

definition mapValues :: "(jsval \<Rightarrow> jsval) \<Rightarrow> RangeFilterParams \<Rightarrow> RangeFilterParams" where
  "mapValues f params = map (\<lambda>kv. (fst kv, f (snd kv))) params"

definition pickBy :: "(jsval \<Rightarrow> range_key \<Rightarrow> bool) \<Rightarrow> RangeFilterParams \<Rightarrow> RangeFilterParams" where
  "pickBy p params = filter (\<lambda>kv. p (snd kv) (fst kv)) params"

fun join :: "string \<Rightarrow> string list \<Rightarrow> string" where
  "join sep [] = []"
| "join sep [x] = x"
| "join sep (x # y # rest) = x @ sep @ join sep (y # rest)"

text \<open>The tables \<^verbatim>\<open>operators\<close>, \<^verbatim>\<open>comparators\<close> and \<^verbatim>\<open>dateComparators\<close>.\<close>

fun operators :: "range_key \<Rightarrow> string option" where
  "operators Gt = Some ''>''"
| "operators Gte = Some ''>=''"
| "operators Lte = Some ''<=''"
| "operators Lt = Some ''<''"
| "operators k = None"

fun comparators :: "range_key \<Rightarrow> string option" where
  "comparators Gt = Some ''boolean gt(Supplier s, def v) {return s.get() > v}''"
| "comparators Gte = Some ''boolean gte(Supplier s, def v) {return s.get() >= v}''"
| "comparators Lte = Some ''boolean lte(Supplier s, def v) {return s.get() <= v}''"
| "comparators Lt = Some ''boolean lt(Supplier s, def v) {return s.get() < v}''"
| "comparators k = None"

fun dateComparators :: "range_key \<Rightarrow> string option" where
  "dateComparators Gt = Some
     ''boolean gt(Supplier s, def v) {return s.get().toInstant().isAfter(Instant.parse(v))}''"
| "dateComparators Gte = Some
     ''boolean gte(Supplier s, def v) {return !s.get().toInstant().isBefore(Instant.parse(v))}''"
| "dateComparators Lte = Some
     ''boolean lte(Supplier s, def v) {return !s.get().toInstant().isAfter(Instant.parse(v))}''"
| "dateComparators Lt = Some
     ''boolean lt(Supplier s, def v) {return s.get().toInstant().isBefore(Instant.parse(v))}''"
| "dateComparators k = None"

text \<open>A table entry next to a string: the text \<^verbatim>\<open>undefined\<close> for a missing entry.\<close>

definition entry_text :: "string option \<Rightarrow> string" where
  "entry_text e = (case e of Some s \<Rightarrow> s | None \<Rightarrow> ''undefined'')"

record IndexPatternFieldBase =
  name :: string
  field_type :: string
  scripted :: "bool option"
  script :: "string option"
  lang :: "string option"

record IndexPatternBase =
  pattern_id :: "string option"

record RangeFilterMeta =
  index :: "string option"
  meta_params :: RangeFilterParams
  formattedValue :: "string option"
  meta_field :: "string option"

text \<open>
  The script object: its \<^verbatim>\<open>params\<close> are the known range parameters and, once
  \<^verbatim>\<open>buildRangeFilter\<close> has set it, the property \<^verbatim>\<open>value\<close>.
\<close>

record range_script =
  source :: string
  script_params :: RangeFilterParams
  script_value :: "string option"
  script_lang :: "string option"

record RangeFilter =
  meta :: RangeFilterMeta
  match_all :: bool
  filter_script :: "range_script option"
  filter_range :: "(string \<times> RangeFilterParams) option"

definition formatValue :: "js_builtins \<Rightarrow> RangeFilterParams \<Rightarrow> string" where
  "formatValue rt params =
     join '' '' (map (\<lambda>kv. entry_text (operators (fst kv)) @ ToString rt (snd kv)) params)"

definition getRangeScript ::
  "js_builtins \<Rightarrow> 'a IndexPatternFieldBase_scheme \<Rightarrow> RangeFilterParams \<Rightarrow> range_script" where
  "getRangeScript rt field params =
     (let knownParams =
            mapValues
              (\<lambda>v. case v of
                     JStr s \<Rightarrow> if field_type field = ''number'' then JNum (parseFloat rt s) else v
                   | _ \<Rightarrow> v)
              (pickBy (\<lambda>v key. operators key \<noteq> None) params);
          script0 =
            join '' && ''
              (map (\<lambda>kv. ''('' @ entry_text (script field) @ '')'' @
                           entry_text (operators (fst kv)) @ key_name (fst kv))
                 knownParams);
          script1 =
            (if lang field = Some ''painless'' then
               (let comp = (if field_type field = ''date'' then dateComparators else comparators);
                    currentComparators =
                      join '' '' (map (\<lambda>kv. entry_text (comp (fst kv))) knownParams);
                    comparisons =
                      join '' && ''
                        (map (\<lambda>kv. key_name (fst kv) @ ''(() -> { '' @ entry_text (script field) @
                                     '' }, params.'' @ key_name (fst kv) @ '')'')
                           knownParams)
                in currentComparators @ comparisons)
             else script0)
      in \<lparr> source = script1, script_params = knownParams, script_value = None,
           script_lang = lang field \<rparr>)"

text \<open>
  One step of the \<^verbatim>\<open>reduce\<close> over \<^verbatim>\<open>['gt', 'lt']\<close>: the accumulator and the object
  \<^verbatim>\<open>params\<close>, which the callback changes in place. \<open>with_e\<close> is the key that the
  template of the callback builds by appending an \<^verbatim>\<open>e\<close> to one of the two operators of
  the array.
\<close>

fun with_e :: "range_key \<Rightarrow> range_key" where
  "with_e Gt = Gte"
| "with_e Lt = Lte"
| "with_e k = k"

definition totalInfinite_step ::
  "js_builtins \<Rightarrow> nat \<times> RangeFilterParams \<Rightarrow> range_key \<Rightarrow> nat \<times> RangeFilterParams" where
  "totalInfinite_step rt state op =
     (let acc = fst state; params = snd state;
          key = (if has_key op params then op else with_e op);
          isInfinite = (Math_abs (ToNumber rt (get_value params key)) = PosInfinity)
      in if isInfinite then (acc + 1, delete_key key params) else (acc, params))"

definition OPERANDS_IN_RANGE :: nat where
  "OPERANDS_IN_RANGE = 2"

definition buildRangeFilter ::
  "js_builtins \<Rightarrow> 'a IndexPatternFieldBase_scheme \<Rightarrow> RangeFilterParams \<Rightarrow>
   'b IndexPatternBase_scheme \<Rightarrow> string option \<Rightarrow> js_error + RangeFilter" where
  "buildRangeFilter rt field params0 indexPattern formattedValue0 =
     (let filter0 =
            \<lparr> meta = \<lparr> index = pattern_id indexPattern, meta_params = [],
                       formattedValue =
                         (case formattedValue0 of
                            Some s \<Rightarrow> if s \<noteq> [] then Some s else None
                          | None \<Rightarrow> None),
                       meta_field = None \<rparr>,
              match_all = False, filter_script = None, filter_range = None \<rparr>;
          params =
            mapValues
              (\<lambda>v. if field_type field = ''number'' then JNum (parseFloat_value rt v) else v)
              params0
      in if has_key Gte params \<and> has_key Gt params
         then Inl (Error ''gte and gt are mutually exclusive'')
         else if has_key Lte params \<and> has_key Lt params
         then Inl (Error ''lte and lt are mutually exclusive'')
         else
           (let reduced = foldl (totalInfinite_step rt) (0, params) [Gt, Lt];
                totalInfinite = fst reduced;
                params' = snd reduced
            in if totalInfinite = OPERANDS_IN_RANGE
               then Inr (filter0 \<lparr> match_all := True,
                                     meta := (meta filter0) \<lparr> meta_field := Some (name field) \<rparr> \<rparr>)
               else if scripted field = Some True
               then
                 (let s = getRangeScript rt field params';
                      s' = s \<lparr> script_value := Some (formatValue rt (script_params s)) \<rparr>
                  in Inr (filter0 \<lparr> filter_script := Some s',
                                        meta := (meta filter0) \<lparr> meta_field := Some (name field) \<rparr> \<rparr>))
               else Inr (filter0 \<lparr> filter_range := Some (name field, params') \<rparr>)))"

section \<open>Task manager: the task store\<close>

text \<open>
  Of the task manager only the plugin class, which wires the task store, the managed
  configuration, the polling lifecycle and the scheduling interface together, is among
  the sources (\<^verbatim>\<open>TaskManagerPlugin.start\<close>). The definitions of this section follow the
  specification of the task store that the plugin class constructs.
\<close>

text \<open>Modelled from the spec: the state of a task document (section 3, Task Document:
  \<^emph>\<open>state (enum: idle | claiming | running | failed)\<close>); the task module that declares
  it is not among the sources.\<close>

datatype task_state = Idle | Claiming | Running | Failed

text \<open>Modelled from the spec: the task document with the attributes of section 3; the
  task module is not among the sources. Timestamps are epoch milliseconds, a nullable
  or optional attribute is an option, and the opaque version token is a counter.\<close>

record task_document =
  task_id :: string
  taskType :: string
  task_params :: string
  state :: task_state
  runAt :: int
  scheduledAt :: int
  startedAt :: "int option"
  attempts :: nat
  ownerId :: "string option"
  retryAt :: "int option"
  interval :: "string option"
  version :: nat

text \<open>Modelled from the spec: the errors of a store operation (sections 4.1 and 7:
  \<^emph>\<open>ConflictError\<close>, \<^emph>\<open>TransientStoreError\<close>, \<^emph>\<open>ValidationError\<close>); the task store module is
  not among the sources.\<close>

datatype store_error = ConflictError | TransientStoreError | ValidationError

text \<open>Modelled from the spec: the document store behind the task store (section 4.1): the
  documents by id, in the order in which they were created, and whether the backend can
  be reached (an operation on an unreachable store fails with a transient error). The
  task store module is not among the sources.\<close>

record task_store =
  docs :: "(string \<times> task_document) list"
  reachable :: bool

text \<open>Modelled from the spec: \<^emph>\<open>update(id, doc, expectedVersion) -> newVersion |
  ConflictError\<close> of section 4.1, missing with the task store module: the write happens only
  when the stored document carries the expected version, and it gives the document a
  new version (\<^emph>\<open>version must be re-read after every successful write\<close>). A document
  that is no longer stored carries no version, which is a mismatch.\<close>

definition update ::
  "task_store \<Rightarrow> string \<Rightarrow> task_document \<Rightarrow> nat \<Rightarrow> store_error + (nat \<times> task_store)" where
  "update st i doc expectedVersion =
     (if \<not> reachable st then Inl TransientStoreError
      else case map_of (docs st) i of
             None \<Rightarrow> Inl ConflictError
           | Some stored \<Rightarrow>
               if version stored = expectedVersion
               then (let newVersion = Suc expectedVersion
                     in Inr (newVersion,
                             st \<lparr> docs := AList.update i (doc \<lparr> version := newVersion \<rparr>) (docs st) \<rparr>))
               else Inl ConflictError)"

text \<open>Modelled from the spec: the write of the claim phase (section 4.4, step 2: \<^emph>\<open>setting
  state=claiming, ownerId=self, retryAt=now+claimTimeout\<close>); the task store module is
  not among the sources.\<close>

definition claim_update :: "string \<Rightarrow> int \<Rightarrow> int \<Rightarrow> task_document \<Rightarrow> task_document" where
  "claim_update self now claimTimeout candidate =
     candidate \<lparr> state := Claiming, ownerId := Some self, retryAt := Some (now + claimTimeout) \<rparr>"

text \<open>Modelled from the spec: the claim phase of the task store (section 4.4, steps 2 and
  3), missing with the task store module. Each candidate is written once, with the
  version read during the search. A \<^emph>\<open>ConflictError\<close> skips the candidate; any other
  error of the store ends the phase as the error of the cycle; a successful write adds
  the document, with its new version, to the claimed documents. The result is the store
  after the phase and the claimed documents or the error.\<close>

fun claim_phase ::
  "string \<Rightarrow> int \<Rightarrow> int \<Rightarrow> task_store \<Rightarrow> task_document list \<Rightarrow>
   task_store \<times> (store_error + task_document list)" where
  "claim_phase self now claimTimeout st [] = (st, Inr [])"
| "claim_phase self now claimTimeout st (candidate # candidates) =
     (case update st (task_id candidate) (claim_update self now claimTimeout candidate)
             (version candidate) of
        Inl e \<Rightarrow>
          if e = ConflictError then claim_phase self now claimTimeout st candidates
          else (st, Inl e)
      | Inr (newVersion, st') \<Rightarrow>
          (case claim_phase self now claimTimeout st' candidates of
             (st'', Inl e) \<Rightarrow> (st'', Inl e)
           | (st'', Inr claimed) \<Rightarrow>
               (st'', Inr (claim_update self now claimTimeout candidate
                             \<lparr> version := newVersion \<rparr> # claimed))))"

text \<open>Modelled from the spec: a candidate that is \<^emph>\<open>successfully updated\<close> (section 4.4,
  step 3), that is, whose write of the claim phase succeeds on a given store; the task
  store module is not among the sources.\<close>

definition update_succeeds :: "string \<Rightarrow> int \<Rightarrow> int \<Rightarrow> task_store \<Rightarrow> task_document \<Rightarrow> bool" where
  "update_succeeds self now claimTimeout st candidate =
     (\<not> isl (update st (task_id candidate) (claim_update self now claimTimeout candidate)
                (version candidate)))"

text \<open>Modelled from the spec: the document that a successful write of the claim phase
  leaves behind (section 4.4, step 2, and section 3: the claim sets the owner and bumps
  the version): the candidate as claimed, with the version after the one that was
  read. The task store module is not among the sources.\<close>

definition claimed_document :: "string \<Rightarrow> int \<Rightarrow> int \<Rightarrow> task_document \<Rightarrow> task_document" where
  "claimed_document self now claimTimeout candidate =
     claim_update self now claimTimeout candidate \<lparr> version := Suc (version candidate) \<rparr>"


text \<open>
  A store with two tasks for the examples: \<open>t1\<close> is idle at version 3, \<open>t2\<close> has been
  claimed by another instance, which moved it to version 5.
\<close>

definition example_store :: task_store where
  "example_store =
     \<lparr> docs =
         [(''t1'', \<lparr> task_id = ''t1'', taskType = ''report'', task_params = ''{}'',
                    state = Idle, runAt = 10, scheduledAt = 5, startedAt = None,
                    attempts = 0, ownerId = None, retryAt = None, interval = None,
                    version = 3 \<rparr>),
          (''t2'', \<lparr> task_id = ''t2'', taskType = ''alert'', task_params = ''{}'',
                    state = Claiming, runAt = 20, scheduledAt = 5, startedAt = None,
                    attempts = 1, ownerId = Some ''kibana:B'', retryAt = Some 1030,
                    interval = None, version = 5 \<rparr>)],
       reachable = True \<rparr>"

text \<open>The two tasks as a search read them before the other instance claimed \<open>t2\<close>.\<close>

definition example_candidates :: "task_document list" where
  "example_candidates =
     [\<lparr> task_id = ''t1'', taskType = ''report'', task_params = ''{}'', state = Idle,
        runAt = 10, scheduledAt = 5, startedAt = None, attempts = 0,
        ownerId = None, retryAt = None, interval = None, version = 3 \<rparr>,
      \<lparr> task_id = ''t2'', taskType = ''alert'', task_params = ''{}'', state = Idle,
        runAt = 20, scheduledAt = 5, startedAt = None, attempts = 0,
        ownerId = None, retryAt = None, interval = None, version = 4 \<rparr>]"

section \<open>Properties of the timestamp range\<close>

text \<open>
  Claim C10, as amended. \<^verbatim>\<open>getTimestampRange\<close> always returns a range whose \<^verbatim>\<open>to\<close> is
  the string \<^verbatim>\<open>now\<close>. Its \<^verbatim>\<open>from\<close> is the smaller of the timestamp of the rule
  schedule lookback and the timestamp of the timerange lookback less 24 hours
  (86400000 milliseconds), where the timerange lookback counts only when it parses and
  its timestamp less 24 hours is still within the date range; it is the one of the two
  that is there when only one is, and the string \<^verbatim>\<open>now-24h\<close> when neither is.
\<close>

theorem getTimestampRange_from_to:
  "range_to (getTimestampRange parse args) = ''now'' \<and>
   range_from (getTimestampRange parse args) =
     (case (parsed_time (parse (ruleScheduleLookback args)),
            less_24_hours (parsed_time (parse (timerangeLookback args)))) of
        (Some a, Some b) \<Rightarrow> FromNumber (Finite (of_int (min a b)))
      | (Some a, None) \<Rightarrow> FromNumber (Finite (of_int a))
      | (None, Some b) \<Rightarrow> FromNumber (Finite (of_int b))
      | (None, None) \<Rightarrow> FromString ''now-24h'')"
proof -
  obtain x where x: "parse (ruleScheduleLookback args) = x" by simp
  obtain y where y: "parse (timerangeLookback args) = y" by simp
  show ?thesis
    by (cases x rule: parsed_time.cases; cases y rule: parsed_time.cases)
       (auto simp: getTimestampRange_def lodash_min_def setTime_def x y min_def)
qed

text \<open>
  An instance: the rule runs every five minutes and looks fifteen minutes back, with
  a parser for which now is 1000300000. The range starts 24 hours before the earlier
  of the two lookbacks.
\<close>

theorem getTimestampRange_from_to_witness:
  "range_to (getTimestampRange
       (\<lambda>s. if s = ''now-5m'' then Some (Moment 1000000000)
            else if s = ''now-15m'' then Some (Moment 999400000) else None)
       \<lparr> ruleScheduleLookback = ''now-5m'', timerangeLookback = ''now-15m'' \<rparr>) = ''now'' \<and>
   range_from (getTimestampRange
       (\<lambda>s. if s = ''now-5m'' then Some (Moment 1000000000)
            else if s = ''now-15m'' then Some (Moment 999400000) else None)
       \<lparr> ruleScheduleLookback = ''now-5m'', timerangeLookback = ''now-15m'' \<rparr>) =
     FromNumber (Finite 913000000)"
  using getTimestampRange_from_to
    [of "\<lambda>s. if s = ''now-5m'' then Some (Moment 1000000000)
            else if s = ''now-15m'' then Some (Moment 999400000) else None"
        "\<lparr> ruleScheduleLookback = ''now-5m'', timerangeLookback = ''now-15m'' \<rparr>"]
  by (simp add: in_date_range_def)

text \<open>
  Claim C10 as it was stated fails where the timerange lookback parses to a time in the
  first 24 hours of the date range, here 12 hours after its start (-8.64e15
  milliseconds): less 24 hours that time is outside the range, the moment loses its
  time value and \<^verbatim>\<open>min\<close> passes over it. With a rule schedule lookback that does not
  parse, \<^verbatim>\<open>from\<close> is \<^verbatim>\<open>now-24h\<close> and not the timerange timestamp less 24 hours; with one
  that parses, \<^verbatim>\<open>from\<close> is the schedule timestamp and not the minimum of the two.
\<close>

theorem getTimestampRange_date_range_counterexample:
  "range_from (getTimestampRange
       (\<lambda>s. if s = ''-271821-04-20T12:00:00.000Z'' then Some (Moment (- 8639999956800000))
            else None)
       \<lparr> ruleScheduleLookback = ''now-'',
         timerangeLookback = ''-271821-04-20T12:00:00.000Z'' \<rparr>) = FromString ''now-24h'' \<and>
   range_from (getTimestampRange
       (\<lambda>s. if s = ''-271821-04-20T12:00:00.000Z'' then Some (Moment (- 8639999956800000))
            else None)
       \<lparr> ruleScheduleLookback = ''now-'',
         timerangeLookback = ''-271821-04-20T12:00:00.000Z'' \<rparr>) \<noteq>
     FromNumber (Finite (of_int (- 8639999956800000 - 86400000))) \<and>
   range_from (getTimestampRange
       (\<lambda>s. if s = ''-271821-04-20T12:00:00.000Z'' then Some (Moment (- 8639999956800000))
            else if s = ''now-5m'' then Some (Moment 1000000000) else None)
       \<lparr> ruleScheduleLookback = ''now-5m'',
         timerangeLookback = ''-271821-04-20T12:00:00.000Z'' \<rparr>) =
     FromNumber (Finite 1000000000) \<and>
   range_from (getTimestampRange
       (\<lambda>s. if s = ''-271821-04-20T12:00:00.000Z'' then Some (Moment (- 8639999956800000))
            else if s = ''now-5m'' then Some (Moment 1000000000) else None)
       \<lparr> ruleScheduleLookback = ''now-5m'',
         timerangeLookback = ''-271821-04-20T12:00:00.000Z'' \<rparr>) \<noteq>
     FromNumber (Finite (of_int (min 1000000000 (- 8639999956800000 - 86400000))))"
  by (simp add: getTimestampRange_def lodash_min_def setTime_def in_date_range_def)

section \<open>Properties of the range filter\<close>

lemma has_key_mapValues: "has_key k (mapValues f params) = has_key k params"
  by (simp add: has_key_def mapValues_def comp_def)

text \<open>
  Claim C8. \<^verbatim>\<open>buildRangeFilter\<close> raises an error exactly when its \<^verbatim>\<open>params\<close> contain both
  a \<^verbatim>\<open>gte\<close> and a \<^verbatim>\<open>gt\<close> key, or both an \<^verbatim>\<open>lte\<close> and an \<^verbatim>\<open>lt\<close> key; for all other
  \<^verbatim>\<open>params\<close>, and any field, index pattern and formatted value, it returns a filter.
\<close>

theorem buildRangeFilter_raises_iff:
  "((\<exists>e. buildRangeFilter rt fld params indexPattern fv = Inl e) =
      ((has_key Gte params \<and> has_key Gt params) \<or> (has_key Lte params \<and> has_key Lt params))) \<and>
   ((\<exists>f. buildRangeFilter rt fld params indexPattern fv = Inr f) =
      (\<not> ((has_key Gte params \<and> has_key Gt params) \<or> (has_key Lte params \<and> has_key Lt params))))"
  by (simp add: buildRangeFilter_def Let_def has_key_mapValues)

text \<open>
  Two instances on a number field: \<^verbatim>\<open>{gte: 1, gt: 0}\<close> raises, \<^verbatim>\<open>{gte: 1, lt: 10}\<close>
  returns a filter.
\<close>

theorem buildRangeFilter_raises_iff_witness:
  "(\<exists>e. buildRangeFilter
          \<lparr> parseFloat = (\<lambda>s. NaN), stringToNumber = (\<lambda>s. NaN), numberToString = (\<lambda>n. ''1'') \<rparr>
          \<lparr> name = ''bytes'', field_type = ''number'', scripted = None, script = None, lang = None \<rparr>
          [(Gte, JNum (Finite 1)), (Gt, JNum (Finite 0))]
          \<lparr> pattern_id = Some ''logs'' \<rparr> None = Inl e) \<and>
   (\<exists>f. buildRangeFilter
          \<lparr> parseFloat = (\<lambda>s. NaN), stringToNumber = (\<lambda>s. NaN), numberToString = (\<lambda>n. ''1'') \<rparr>
          \<lparr> name = ''bytes'', field_type = ''number'', scripted = None, script = None, lang = None \<rparr>
          [(Gte, JNum (Finite 1)), (Lt, JNum (Finite 10))]
          \<lparr> pattern_id = Some ''logs'' \<rparr> None = Inr f)"
  using
    buildRangeFilter_raises_iff
      [of "\<lparr> parseFloat = (\<lambda>s. NaN), stringToNumber = (\<lambda>s. NaN), numberToString = (\<lambda>n. ''1'') \<rparr>"
          "\<lparr> name = ''bytes'', field_type = ''number'', scripted = None, script = None, lang = None \<rparr>"
          "[(Gte, JNum (Finite 1)), (Gt, JNum (Finite 0))]"
          "\<lparr> pattern_id = Some ''logs'' \<rparr>" None]
    buildRangeFilter_raises_iff
      [of "\<lparr> parseFloat = (\<lambda>s. NaN), stringToNumber = (\<lambda>s. NaN), numberToString = (\<lambda>n. ''1'') \<rparr>"
          "\<lparr> name = ''bytes'', field_type = ''number'', scripted = None, script = None, lang = None \<rparr>"
          "[(Gte, JNum (Finite 1)), (Lt, JNum (Finite 10))]"
          "\<lparr> pattern_id = Some ''logs'' \<rparr>" None]
  by (simp add: has_key_def)

section \<open>Properties of deleting a notification\<close>

text \<open>No notification is found: the result is \<^verbatim>\<open>null\<close> and nothing is deleted.\<close>

lemma deleteNotifications_not_found:
  "readNotifications rulesClient i ruleAlertId = Inr None \<Longrightarrow>
   deleteNotifications readNotifications rulesClient_delete rulesClient i ruleAlertId =
     (rulesClient, Inr None)"
  by (simp add: deleteNotifications_def)

text \<open>The notification has an id of its own: it is deleted by that id, the notification
  is returned, and every error of the deletion propagates.\<close>

lemma deleteNotifications_by_own_id:
  assumes "readNotifications rulesClient i ruleAlertId = Inr (Some notification)"
    and "notification_id notification = Some nid"
    and "rulesClient_delete rulesClient nid = (rc, outcome)"
  shows "deleteNotifications readNotifications rulesClient_delete rulesClient i ruleAlertId =
     (rc, case outcome of None \<Rightarrow> Inr (Some notification) | Some err \<Rightarrow> Inl err)"
  using assms by (simp add: deleteNotifications_def split: option.splits)

text \<open>The notification has no id of its own and the caller gave one: the deletion by
  the caller's id returns the notification, a failure with status 404 gives \<^verbatim>\<open>null\<close>, a
  failure with another status is thrown again, and a failure with an error that has no
  \<^verbatim>\<open>output\<close> ends in the \<^verbatim>\<open>TypeError\<close> of the catch block.\<close>

lemma deleteNotifications_by_caller_id:
  assumes "readNotifications rulesClient (Some i) ruleAlertId = Inr (Some notification)"
    and "notification_id notification = None"
    and "rulesClient_delete rulesClient i = (rc, outcome)"
  shows "deleteNotifications readNotifications rulesClient_delete rulesClient (Some i) ruleAlertId =
     (rc, case outcome of
            None \<Rightarrow> Inr (Some notification)
          | Some (Boom code msg) \<Rightarrow> if code = 404 then Inr None else Inl (Boom code msg)
          | Some other \<Rightarrow> Inl (TypeError ''Cannot read property 'statusCode' of undefined''))"
  using assms by (simp add: deleteNotifications_def split: option.splits js_error.splits)

text \<open>
  Claim C9, at the input where the code departs from it. The claim: no notification
  found gives \<^verbatim>\<open>null\<close>; a notification without an id of its own whose deletion by the
  caller's id fails with status 404 gives \<^verbatim>\<open>null\<close>, and any other error of that
  deletion is thrown again; a successful deletion returns the notification. Here the
  notification has no id and the deletion by the caller's id \<^verbatim>\<open>rule-1\<close> rejects with an
  \<^verbatim>\<open>Error\<close> that has no \<^verbatim>\<open>output\<close>: the call does not reject with that error but with
  the \<^verbatim>\<open>TypeError\<close> of reading \<^verbatim>\<open>err.output.statusCode\<close>.
\<close>

theorem deleteNotifications_error_without_output:
  "deleteNotifications
     (\<lambda>rulesClient i ruleAlertId. Inr (Some \<lparr> notification_id = None \<rparr>))
     (\<lambda>rulesClient i. (rulesClient, Some (Error ''socket hang up'')))
     () (Some ''rule-1'') None =
   ((), Inl (TypeError ''Cannot read property 'statusCode' of undefined'')) \<and>
   deleteNotifications
     (\<lambda>rulesClient i ruleAlertId. Inr (Some \<lparr> notification_id = None \<rparr>))
     (\<lambda>rulesClient i. (rulesClient, Some (Error ''socket hang up'')))
     () (Some ''rule-1'') None \<noteq>
   ((), Inl (Error ''socket hang up''))"
  by (simp add: deleteNotifications_def)

section \<open>Properties of the claim phase\<close>

text \<open>What one write does to the store: a successful write needs a reachable store,
  gives the document the next version and leaves every other document as it was; a
  failed write is a conflict unless the store is unreachable.\<close>

lemma update_reachable:
  "update st i doc v = Inr (nv, st') \<Longrightarrow> reachable st \<and> reachable st'"
  by (auto simp: update_def Let_def split: if_splits option.splits)

lemma update_error_cases:
  "update st i doc v = Inl e \<Longrightarrow>
     e = ConflictError \<or> (e = TransientStoreError \<and> \<not> reachable st)"
  by (auto simp: update_def Let_def split: if_splits option.splits)

lemma update_other:
  "update st i doc v = Inr (nv, st') \<Longrightarrow> j \<noteq> i \<Longrightarrow>
     map_of (docs st') j = map_of (docs st) j"
  by (auto simp: update_def Let_def update_conv' split: if_splits option.splits)

lemma update_same:
  "update st i doc v = Inr (nv, st') \<Longrightarrow>
     nv = Suc v \<and> map_of (docs st') i = Some (doc \<lparr> version := Suc v \<rparr>)"
  by (auto simp: update_def Let_def update_conv' split: if_splits option.splits)

lemma update_isl_other:
  assumes "update st i doc v = Inr (nv, st')" and "j \<noteq> i"
  shows "isl (update st' j doc' v') = isl (update st j doc' v')"
  using update_other [OF assms] update_reachable [OF assms(1)]
  by (simp add: update_def Let_def split: option.splits)

text \<open>The claimed documents are the candidates whose write succeeds on the store as
  the phase found it, in the order of the candidates.\<close>

lemma claim_phase_claimed:
  "distinct (map task_id cands) \<Longrightarrow>
   claim_phase self now ct st cands = (st', Inr claimed) \<Longrightarrow>
   claimed = map (claimed_document self now ct) (filter (update_succeeds self now ct st) cands)"
proof (induction cands arbitrary: st st' claimed)
  case Nil
  then show ?case by simp
next
  case (Cons c cs)
  let ?u = "update st (task_id c) (claim_update self now ct c) (version c)"
  show ?case
  proof (cases ?u)
    case (Inl e)
    with Cons.prems have e: "e = ConflictError" by (auto split: if_splits)
    with Inl Cons.prems have "claim_phase self now ct st cs = (st', Inr claimed)" by simp
    with Cons.IH Cons.prems(1)
    have "claimed = map (claimed_document self now ct) (filter (update_succeeds self now ct st) cs)"
      by simp
    moreover have "\<not> update_succeeds self now ct st c"
      using Inl by (simp add: update_succeeds_def)
    ultimately show ?thesis by simp
  next
    case (Inr r)
    obtain nv st1 where r: "r = (nv, st1)" by (cases r)
    with Inr have u: "?u = Inr (nv, st1)" by simp
    from u Cons.prems(2) obtain rest where
      rest: "claim_phase self now ct st1 cs = (st', Inr rest)"
      and cl: "claimed = claim_update self now ct c \<lparr> version := nv \<rparr> # rest"
      by (auto split: prod.splits sum.splits)
    from Cons.IH [OF _ rest] Cons.prems(1)
    have "rest = map (claimed_document self now ct) (filter (update_succeeds self now ct st1) cs)"
      by simp
    moreover
    have "filter (update_succeeds self now ct st1) cs = filter (update_succeeds self now ct st) cs"
    proof (rule filter_cong [OF refl])
      fix x assume "x \<in> set cs"
      with Cons.prems(1) have "task_id x \<noteq> task_id c" by (auto simp: image_iff)
      from update_isl_other [OF u this]
      show "update_succeeds self now ct st1 x = update_succeeds self now ct st x"
        by (simp add: update_succeeds_def)
    qed
    moreover have "update_succeeds self now ct st c"
      using u by (simp add: update_succeeds_def)
    moreover have "nv = Suc (version c)" using update_same [OF u] by simp
    ultimately show ?thesis using cl by (simp add: claimed_document_def)
  qed
qed

text \<open>The phase ends in an error only when the store cannot be reached, and it does
  not change whether the store can be reached.\<close>

lemma claim_phase_error:
  "claim_phase self now ct st cands = (st', Inl e) \<Longrightarrow>
     e = TransientStoreError \<and> \<not> reachable st'"
proof (induction cands arbitrary: st st')
  case Nil
  then show ?case by simp
next
  case (Cons c cs)
  let ?u = "update st (task_id c) (claim_update self now ct c) (version c)"
  show ?case
  proof (cases ?u)
    case (Inl e')
    show ?thesis
    proof (cases "e' = ConflictError")
      case True
      with Inl Cons.prems Cons.IH show ?thesis by simp
    next
      case False
      with Inl Cons.prems have "e = e'" "st' = st" by auto
      with update_error_cases [OF Inl] False show ?thesis by simp
    qed
  next
    case (Inr r)
    obtain nv st1 where r: "r = (nv, st1)" by (cases r)
    with Inr Cons.prems have "claim_phase self now ct st1 cs = (st', Inl e)"
      by (auto split: prod.splits sum.splits)
    with Cons.IH show ?thesis by blast
  qed
qed

lemma claim_phase_reachable:
  "claim_phase self now ct st cands = (st', r) \<Longrightarrow> reachable st' = reachable st"
proof (induction cands arbitrary: st st' r)
  case Nil
  then show ?case by simp
next
  case (Cons c cs)
  let ?u = "update st (task_id c) (claim_update self now ct c) (version c)"
  show ?case
  proof (cases ?u)
    case (Inl e')
    with Cons show ?thesis by (auto split: if_splits)
  next
    case (Inr p)
    obtain nv st1 where p: "p = (nv, st1)" by (cases p)
    with Inr have u: "?u = Inr (nv, st1)" by simp
    obtain st2 r2 where c2: "claim_phase self now ct st1 cs = (st2, r2)"
      by (cases "claim_phase self now ct st1 cs")
    with u Cons.prems have "st' = st2" by (auto split: sum.splits)
    with Cons.IH [OF c2] update_reachable [OF u] show ?thesis by simp
  qed
qed

text \<open>A document none of whose candidates can be written is stored after the phase as
  it was before.\<close>

lemma claim_phase_untouched:
  "claim_phase self now ct st cands = (st', r) \<Longrightarrow>
   (\<And>c. c \<in> set cands \<Longrightarrow> task_id c = i \<Longrightarrow> \<not> update_succeeds self now ct st c) \<Longrightarrow>
   map_of (docs st') i = map_of (docs st) i"
proof (induction cands arbitrary: st st' r)
  case Nil
  then show ?case by simp
next
  case (Cons c cs)
  let ?u = "update st (task_id c) (claim_update self now ct c) (version c)"
  show ?case
  proof (cases ?u)
    case (Inl e)
    show ?thesis
    proof (cases "e = ConflictError")
      case True
      with Inl Cons.prems(1) have "claim_phase self now ct st cs = (st', r)" by simp
      from Cons.IH [OF this] Cons.prems(2) show ?thesis by simp
    next
      case False
      with Inl Cons.prems(1) show ?thesis by simp
    qed
  next
    case (Inr p)
    obtain nv st1 where p: "p = (nv, st1)" by (cases p)
    with Inr have u: "?u = Inr (nv, st1)" by simp
    then have ok: "update_succeeds self now ct st c" by (simp add: update_succeeds_def)
    with Cons.prems(2) have ne: "i \<noteq> task_id c" by auto
    obtain st2 r2 where c2: "claim_phase self now ct st1 cs = (st2, r2)"
      by (cases "claim_phase self now ct st1 cs")
    with u Cons.prems(1) have st2: "st' = st2" by (auto split: sum.splits)
    have "map_of (docs st2) i = map_of (docs st1) i"
    proof (rule Cons.IH [OF c2])
      fix x assume x: "x \<in> set cs" "task_id x = i"
      with ne have "task_id x \<noteq> task_id c" by simp
      from update_isl_other [OF u this] Cons.prems(2) [of x] x
      show "\<not> update_succeeds self now ct st1 x" by (simp add: update_succeeds_def)
    qed
    with update_other [OF u ne] st2 show ?thesis by simp
  qed
qed

text \<open>Every claimed document is stored as it is returned.\<close>

lemma claim_phase_stored:
  "distinct (map task_id cands) \<Longrightarrow>
   claim_phase self now ct st cands = (st', Inr claimed) \<Longrightarrow>
   d \<in> set claimed \<Longrightarrow> map_of (docs st') (task_id d) = Some d"
proof (induction cands arbitrary: st st' claimed)
  case Nil
  then show ?case by simp
next
  case (Cons c cs)
  let ?u = "update st (task_id c) (claim_update self now ct c) (version c)"
  show ?case
  proof (cases ?u)
    case (Inl e)
    with Cons.prems have "e = ConflictError" by (auto split: if_splits)
    with Inl Cons.prems have "claim_phase self now ct st cs = (st', Inr claimed)" by simp
    from Cons.IH [OF _ this Cons.prems(3)] Cons.prems(1) show ?thesis by simp
  next
    case (Inr p)
    obtain nv st1 where p: "p = (nv, st1)" by (cases p)
    with Inr have u: "?u = Inr (nv, st1)" by simp
    from u Cons.prems(2) obtain rest where
      rest: "claim_phase self now ct st1 cs = (st', Inr rest)"
      and cl: "claimed = claim_update self now ct c \<lparr> version := nv \<rparr> # rest"
      by (auto split: prod.splits sum.splits)
    show ?thesis
    proof (cases "d \<in> set rest")
      case True
      from Cons.IH [OF _ rest True] Cons.prems(1) show ?thesis by simp
    next
      case False
      with cl Cons.prems(3) have d: "d = claim_update self now ct c \<lparr> version := nv \<rparr>"
        by simp
      then have id: "task_id d = task_id c" by (simp add: claim_update_def)
      have "map_of (docs st') (task_id c) = map_of (docs st1) (task_id c)"
      proof (rule claim_phase_untouched [OF rest])
        fix x assume "x \<in> set cs" "task_id x = task_id c"
        with Cons.prems(1) show "\<not> update_succeeds self now ct st1 x"
          by (auto simp: image_iff)
      qed
      with update_same [OF u] d id show ?thesis by simp
    qed
  qed
qed

text \<open>
  Claim C3. In the claim phase of the task store, a candidate whose version-checked
  write fails with \<^emph>\<open>ConflictError\<close> is not claimed and is skipped: the phase goes on
  with the candidates after it, does not write it again, and leaves its stored
  document as it was. The claimed documents are exactly the candidates whose write
  succeeded, each stored as claimed, so they may be fewer than the candidates; and the
  phase never ends in a \<^emph>\<open>ConflictError\<close>: with a reachable store it always returns its
  claimed documents. The candidates are those of one search, so no two of them have
  the same id; the write of a candidate then succeeds in the phase exactly when it
  succeeds on the store as the phase found it.
\<close>

theorem claim_phase_conflicts_skipped:
  assumes "distinct (map task_id candidates)"
    and "claim_phase self now claimTimeout st candidates = (st', result)"
  shows "result \<noteq> Inl ConflictError \<and>
         (reachable st \<longrightarrow> (\<exists>claimed. result = Inr claimed)) \<and>
         (\<forall>claimed. result = Inr claimed \<longrightarrow>
            claimed = map (claimed_document self now claimTimeout)
                        (filter (update_succeeds self now claimTimeout st) candidates) \<and>
            set claimed \<subseteq> claimed_document self now claimTimeout ` set candidates \<and>
            (\<forall>d \<in> set claimed. map_of (docs st') (task_id d) = Some d) \<and>
            (\<forall>c \<in> set candidates.
               update st (task_id c) (claim_update self now claimTimeout c) (version c) =
                 Inl ConflictError \<longrightarrow>
               task_id c \<notin> task_id ` set claimed \<and>
               map_of (docs st') (task_id c) = map_of (docs st) (task_id c) \<and>
               claim_phase self now claimTimeout st (c # rest) =
                 claim_phase self now claimTimeout st rest))"
proof (intro conjI allI impI ballI)
  show "result \<noteq> Inl ConflictError"
    using claim_phase_error [of self now claimTimeout st candidates st' ConflictError] assms(2)
    by auto
next
  assume r: "reachable st"
  show "\<exists>claimed. result = Inr claimed"
  proof (cases result)
    case (Inl e)
    with claim_phase_error [of self now claimTimeout st candidates st' e] assms(2)
      claim_phase_reachable [OF assms(2)] r
    show ?thesis by simp
  next
    case (Inr claimed)
    then show ?thesis by simp
  qed
next
  fix claimed assume res: "result = Inr claimed"
  with assms(2) have cp: "claim_phase self now claimTimeout st candidates = (st', Inr claimed)"
    by simp
  show eq: "claimed = map (claimed_document self now claimTimeout)
                        (filter (update_succeeds self now claimTimeout st) candidates)"
    by (rule claim_phase_claimed [OF assms(1) cp])
  then show "set claimed \<subseteq> claimed_document self now claimTimeout ` set candidates"
    by auto
  { fix d assume "d \<in> set claimed"
    then show "map_of (docs st') (task_id d) = Some d"
      by (rule claim_phase_stored [OF assms(1) cp]) }
  { fix c assume c: "c \<in> set candidates"
      and conflict: "update st (task_id c) (claim_update self now claimTimeout c) (version c) =
                 Inl ConflictError"
    then have nok: "\<not> update_succeeds self now claimTimeout st c"
      by (simp add: update_succeeds_def)
    have ids: "task_id (claimed_document self now claimTimeout x) = task_id x" for x
      by (simp add: claimed_document_def claim_update_def)
    show "task_id c \<notin> task_id ` set claimed"
    proof
      assume "task_id c \<in> task_id ` set claimed"
      with eq obtain x where x: "x \<in> set candidates"
        "update_succeeds self now claimTimeout st x" "task_id x = task_id c"
        by (auto simp: ids)
      with assms(1) c have "x = c" by (auto simp: distinct_map inj_on_def)
      with x nok show False by simp
    qed
    show "map_of (docs st') (task_id c) = map_of (docs st) (task_id c)"
    proof (rule claim_phase_untouched [OF cp])
      fix x assume x: "x \<in> set candidates" "task_id x = task_id c"
      with assms(1) c have "x = c" by (auto simp: distinct_map inj_on_def)
      with nok show "\<not> update_succeeds self now claimTimeout st x" by simp
    qed
    show "claim_phase self now claimTimeout st (c # rest) =
                 claim_phase self now claimTimeout st rest"
      using conflict by simp }
qed

text \<open>
  An instance on the example store: of the two candidates of the search, \<open>t1\<close> is
  claimed and stored as claimed; the write of \<open>t2\<close>, read at version 4 and since moved
  to version 5 by the other instance, is a conflict, \<open>t2\<close> stays as it is and the phase
  returns one claimed document for two candidates.
\<close>

theorem claim_phase_conflicts_skipped_witness:
  "distinct (map task_id example_candidates) \<and>
   (\<exists>st' claimed.
      claim_phase ''kibana:A'' 1000 30 example_store example_candidates = (st', Inr claimed) \<and>
      map task_id claimed = [''t1''] \<and>
      map state claimed = [Claiming] \<and>
      map ownerId claimed = [Some ''kibana:A''] \<and>
      map retryAt claimed = [Some 1030] \<and>
      map version claimed = [4] \<and>
      length claimed < length example_candidates \<and>
      map_of (docs st') ''t1'' = Some (claimed ! 0) \<and>
      map_of (docs st') ''t2'' = map_of (docs example_store) ''t2'' \<and>
      update example_store ''t2'' (claim_update ''kibana:A'' 1000 30 (example_candidates ! 1)) 4 =
        Inl ConflictError)"
proof -
  have d: "distinct (map task_id example_candidates)"
    by (simp add: example_candidates_def)
  obtain st' result where
    cp: "claim_phase ''kibana:A'' 1000 30 example_store example_candidates = (st', result)"
    by (cases "claim_phase ''kibana:A'' 1000 30 example_store example_candidates")
  have r: "reachable example_store" by (simp add: example_store_def)
  have conflict:
    "update example_store ''t2'' (claim_update ''kibana:A'' 1000 30 (example_candidates ! 1)) 4 =
        Inl ConflictError"
    by (simp add: example_store_def example_candidates_def update_def)
  note inst = claim_phase_conflicts_skipped [OF d cp, of "[]"]
  from inst r obtain claimed where res: "result = Inr claimed" by blast
  with inst have cl: "claimed = map (claimed_document ''kibana:A'' 1000 30)
      (filter (update_succeeds ''kibana:A'' 1000 30 example_store) example_candidates)"
    and stored: "\<forall>d \<in> set claimed. map_of (docs st') (task_id d) = Some d"
    and skipped: "\<forall>c \<in> set example_candidates.
               update example_store (task_id c) (claim_update ''kibana:A'' 1000 30 c) (version c) =
                 Inl ConflictError \<longrightarrow>
               task_id c \<notin> task_id ` set claimed \<and>
               map_of (docs st') (task_id c) = map_of (docs example_store) (task_id c)"
    by blast+
  have cl': "claimed = [claimed_document ''kibana:A'' 1000 30 (example_candidates ! 0)]"
    unfolding cl
    by (simp add: example_store_def example_candidates_def update_def update_succeeds_def)
  have t2: "map_of (docs st') ''t2'' = map_of (docs example_store) ''t2''"
    using skipped conflict by (simp add: example_candidates_def)
  have t1: "map_of (docs st') ''t1'' = Some (claimed ! 0)"
    using stored cl' by (simp add: example_candidates_def claimed_document_def claim_update_def)
  show ?thesis
    using d cp res cl' t1 t2 conflict
    by (simp add: example_candidates_def claimed_document_def claim_update_def)
qed

section \<open>Properties of a claim race\<close>






end
